theory Spec2Isabelle
  imports Complex_Main "HOL-Library.AList"
begin

section \<open>Python values, keyword dictionaries and errors\<close>

text \<open>
  The values that flow through \<open>core_utils/fields.py\<close> and \<open>core_utils/models.py\<close>:
  \<open>None\<close>, booleans, integers, finite floats (as the rational they denote), strings,
  references to a named function, class or constant (\<open>uuid.uuid4\<close>, \<open>models.PROTECT\<close>,
  \<open>User\<close>, \<open>latitude_validator\<close>), lists, and objects built by a constructor call with
  keyword arguments (\<open>URLValidator(schemes=...)\<close>, a user instance).
\<close>

datatype pyval =
    PyNone
  | PyBool bool
  | PyInt int
  | PyFloat rat
  | PyStr string
  | PyRef string
  | PyList "pyval list"
  | PyObj string "(string \<times> pyval) list"

text \<open>Python truthiness, as used by \<open>x or y\<close>.\<close>

fun truthy :: "pyval \<Rightarrow> bool" where
  "truthy PyNone = False"
| "truthy (PyBool b) = b"
| "truthy (PyInt i) = (i \<noteq> 0)"
| "truthy (PyFloat r) = (r \<noteq> 0)"
| "truthy (PyStr s) = (s \<noteq> [])"
| "truthy (PyRef r) = True"
| "truthy (PyList xs) = (xs \<noteq> [])"
| "truthy (PyObj c kw) = True"

text \<open>
  A keyword dictionary (\<open>**kwargs\<close>, \<open>dict(...)\<close>) is an association list in insertion
  order. \<open>AList.update\<close> is Python's \<open>d[k] = v\<close>: an existing key keeps its position,
  a new key is appended.
\<close>

type_synonym kwargs = "(string \<times> pyval) list"

text \<open>\<open>d.update(other)\<close>: every item of \<open>other\<close>, in order, is stored into \<open>d\<close>.\<close>

definition dict_update :: "kwargs \<Rightarrow> kwargs \<Rightarrow> kwargs" where
  "dict_update d other = fold (\<lambda>(k, v). AList.update k v) other d"

text \<open>\<open>d.pop(key, default)\<close>: the value stored under the key (or the default) and
  the dictionary without the key.\<close>

definition pop :: "kwargs \<Rightarrow> string \<Rightarrow> pyval \<Rightarrow> pyval \<times> kwargs" where
  "pop d key dflt =
     (case map_of d key of
        None \<Rightarrow> (dflt, d)
      | Some v \<Rightarrow> (v, AList.delete key d))"

datatype error =
    TypeError string
  | ValueError string
  | ValidationError string
  | DoesNotExist
  | MultipleObjectsReturned

section \<open>\<open>models.py\<close>: the versioned model\<close>

text \<open>
  The columns \<open>VersionedModel\<close> declares. The record is extensible, so that a concrete
  model (or \<open>NamedModel\<close>) adds its own columns and inherits \<open>save\<close>.
\<close>

record versioned_model =
  id_field :: pyval
  uuid :: pyval
  version :: int
  enabled :: bool
  deleted :: bool
  creation_time :: pyval
  update_time :: pyval
  creation_user :: pyval
  update_user :: pyval
  effective_user :: pyval
  site :: pyval

text \<open>
  The three user references are foreign keys to the user model (\<open>fields.user_field\<close>).
  The attribute the persistence framework installs for a foreign key accepts \<open>None\<close> and
  instances of the target class, and raises \<open>ValueError\<close> on any other value. The
  instance test \<open>isinstance(value, User)\<close> is the parameter \<open>is_instance\<close>.
\<close>

definition foreign_key_assign :: "(pyval \<Rightarrow> bool) \<Rightarrow> string \<Rightarrow> pyval \<Rightarrow> error option" where
  "foreign_key_assign is_instance attr value =
     (if value \<noteq> PyNone \<and> \<not> is_instance value
      then Some (ValueError (''Cannot assign value: '' @ attr @ '' must be a User instance''))
      else None)"

text \<open>
  \<open>VersionedModel.save(self, *args, **kwargs)\<close>. The instance is mutated in place, so
  the result is the instance as the call leaves it together with the outcome: the
  exception raised by an assignment, or what the base class's \<open>save\<close> returns. The base
  class belongs to the persistence framework and is the parameter \<open>super_save\<close>; it
  receives the mutated instance, the positional arguments and the keyword arguments left
  after the two \<open>pop\<close>s, and returns the instance as it leaves it and its own outcome.
\<close>

definition save ::
  "(pyval \<Rightarrow> bool) \<Rightarrow>
   ('a versioned_model_scheme \<Rightarrow> pyval list \<Rightarrow> kwargs \<Rightarrow> 'a versioned_model_scheme \<times> 'r) \<Rightarrow>
   'a versioned_model_scheme \<Rightarrow> pyval list \<Rightarrow> kwargs \<Rightarrow>
   'a versioned_model_scheme \<times> (error + 'r)" where
  "save is_user super_save self args kwargs =
     (let self1 = self\<lparr>version := version self + 1\<rparr>;
          (update_user_arg, kwargs1) = pop kwargs ''update_user'' PyNone
      in case (if update_user_arg \<noteq> PyNone
               then foreign_key_assign is_user ''update_user'' update_user_arg
               else None) of
           Some e \<Rightarrow> (self1, Inl e)
         | None \<Rightarrow>
             (let self2 = (if update_user_arg \<noteq> PyNone
                           then self1\<lparr>update_user := update_user_arg\<rparr> else self1);
                  (effective_user_arg, kwargs2) = pop kwargs1 ''effective_user'' PyNone
              in case (if update_user_arg \<noteq> PyNone
                       then foreign_key_assign is_user ''effective_user'' effective_user_arg
                       else None) of
                   Some e \<Rightarrow> (self2, Inl e)
                 | None \<Rightarrow>
                     (let self3 = (if update_user_arg \<noteq> PyNone
                                   then self2\<lparr>effective_user := effective_user_arg\<rparr>
                                   else self2);
                          (self4, outcome) = super_save self3 args kwargs2
                      in (self4, Inr outcome))))"

text \<open>
  A fresh instance and two users for the concrete evaluations below. The version counter
  starts at the default of \<open>fields.integer_field()\<close>, which is 0.
\<close>

definition alice :: pyval where
  "alice = PyObj ''User'' [(''pk'', PyInt 1)]"

definition bob :: pyval where
  "bob = PyObj ''User'' [(''pk'', PyInt 2)]"

text \<open>The instance test for the concrete evaluations: an object built by \<open>User(...)\<close>.\<close>

definition user_instance :: "pyval \<Rightarrow> bool" where
  "user_instance v = (case v of PyObj c kw \<Rightarrow> c = ''User'' | _ \<Rightarrow> False)"

definition fresh_instance :: versioned_model where
  "fresh_instance =
     \<lparr>id_field = PyNone, uuid = PyRef ''uuid.uuid4()'', version = 0, enabled = True,
      deleted = False, creation_time = PyNone, update_time = PyNone,
      creation_user = PyNone, update_user = PyNone, effective_user = PyNone,
      site = PyNone\<rparr>"

text \<open>
  Two stand-ins for the framework's \<open>save\<close>: one that only records the call it
  receives, and one that stores the row (it assigns the primary key and the update time,
  leaves the other columns alone and raises nothing).
\<close>

definition recording_save ::
  "versioned_model \<Rightarrow> pyval list \<Rightarrow> kwargs \<Rightarrow> versioned_model \<times> pyval list \<times> kwargs" where
  "recording_save self args kwargs = (self, args, kwargs)"

definition storing_save ::
  "versioned_model \<Rightarrow> pyval list \<Rightarrow> kwargs \<Rightarrow> versioned_model \<times> error option" where
  "storing_save self args kwargs =
     (self\<lparr>id_field := PyInt 1, update_time := PyStr ''now''\<rparr>, None)"

section \<open>\<open>models.py\<close>: naming helpers\<close>

text \<open>
  The string-inflection library (\<open>inflection.underscore\<close>, \<open>inflection.pluralize\<close>),
  the translation function \<open>_\<close>, the \<open>class_name\<close> utility and the constants module
  (\<open>SITE_LABEL\<close>, \<open>UNKNOWN\<close>) are not part of the two source files; the functions below
  take what they use of them as parameters.
\<close>

text \<open>\<open>s.replace(old, new)\<close> for one-character \<open>old\<close> and \<open>new\<close>.\<close>

definition replace_char :: "char \<Rightarrow> char \<Rightarrow> string \<Rightarrow> string" where
  "replace_char old new s = map (\<lambda>c. if c = old then new else c) s"

definition verbose_class_name :: "(string \<Rightarrow> string) \<Rightarrow> string \<Rightarrow> string" where
  "verbose_class_name underscore class_name_arg =
     (let verbose_name = underscore class_name_arg;
          verbose_name = replace_char (CHR ''_'') (CHR '' '') verbose_name
      in verbose_name)"

definition pluralize :: "(string \<Rightarrow> string) \<Rightarrow> string \<Rightarrow> string" where
  "pluralize inflection_pluralize name_arg = inflection_pluralize name_arg"

definition db_table_for_class :: "(string \<Rightarrow> string) \<Rightarrow> string \<Rightarrow> string" where
  "db_table_for_class underscore class_name_arg =
     (let table_name = underscore class_name_arg in table_name)"

text \<open>
  The arguments of the table-name functions are strings or \<open>None\<close> (\<open>db_table\<close> passes
  its default \<open>site_label=None\<close> on, \<open>meta\<close> its default \<open>app_label=None\<close>).
  \<open>py_str\<close> is what \<open>'{}'.format\<close> prints for such a value.
\<close>

definition py_str :: "string option \<Rightarrow> string" where
  "py_str v = (case v of None \<Rightarrow> ''None'' | Some s \<Rightarrow> s)"

text \<open>\<open>site_label or constants.SITE_LABEL\<close>: \<open>None\<close> and the empty string are falsy.\<close>

definition or_site_label :: "string option \<Rightarrow> string \<Rightarrow> string option" where
  "or_site_label site_label SITE_LABEL =
     (case site_label of
        None \<Rightarrow> Some SITE_LABEL
      | Some s \<Rightarrow> if s = [] then Some SITE_LABEL else Some s)"

text \<open>The body of \<open>db_table_for_app_and_class\<close>, once its three parameters are bound.\<close>

definition db_table_for_app_and_class ::
  "string \<Rightarrow> string option \<Rightarrow> string option \<Rightarrow> string option \<Rightarrow> string" where
  "db_table_for_app_and_class SITE_LABEL app_name table_name site_label =
     (let site_label = or_site_label site_label SITE_LABEL
      in py_str site_label @ ''_'' @ py_str app_name @ ''_'' @ py_str table_name)"

text \<open>
  A call \<open>db_table_for_app_and_class(*args)\<close> with positional arguments. The signature
  \<open>def db_table_for_app_and_class(app_name, table_name, site_label)\<close> declares three
  parameters and no default value, so Python binds exactly three arguments and raises
  \<open>TypeError\<close> for any other number.
\<close>

fun db_table_for_app_and_class_call :: "string \<Rightarrow> string option list \<Rightarrow> error + string" where
  "db_table_for_app_and_class_call SITE_LABEL [app_name, table_name, site_label] =
     Inr (db_table_for_app_and_class SITE_LABEL app_name table_name site_label)"
| "db_table_for_app_and_class_call SITE_LABEL args =
     (if length args < 3
      then Inl (TypeError ''db_table_for_app_and_class() missing required positional argument'')
      else Inl (TypeError ''db_table_for_app_and_class() takes 3 positional arguments''))"

definition db_table ::
  "(string \<Rightarrow> string) \<Rightarrow> string \<Rightarrow> string option \<Rightarrow> string \<Rightarrow> string option \<Rightarrow> error + string" where
  "db_table underscore SITE_LABEL app_name class_name_arg site_label =
     db_table_for_app_and_class_call SITE_LABEL
       [app_name, Some (db_table_for_class underscore class_name_arg), site_label]"

text \<open>
  A model class as \<open>meta\<close> sees it: its name and module, the three attributes of its
  \<open>_meta\<close> object that \<open>meta\<close> writes, and the \<open>Meta\<close> container attached to it
  (bases and attributes of the type built by \<open>type('Meta', meta_base, meta_attrs)\<close>).
\<close>

record model_class =
  cls_name :: string
  cls_module :: string
  meta_db_table :: pyval
  meta_verbose_name :: pyval
  meta_verbose_name_plural :: pyval
  cls_Meta :: "(pyval list \<times> kwargs) option"

text \<open>
  The function \<open>wrapped\<close> returned by \<open>meta(meta_base_classes, app_label, **kwargs)\<close>,
  applied to a class. The dictionary literal \<open>meta_attrs\<close> evaluates the call
  \<open>db_table_for_app_and_class(app_label, table_name)\<close> with two arguments; an exception
  raised there leaves \<open>wrapped\<close> before anything is written to the class.
\<close>

definition wrapped ::
  "(string \<Rightarrow> string) \<Rightarrow> (string \<Rightarrow> string) \<Rightarrow> (string \<Rightarrow> string) \<Rightarrow>
   (model_class \<Rightarrow> string) \<Rightarrow> string \<Rightarrow>
   pyval \<Rightarrow> string option \<Rightarrow> kwargs \<Rightarrow> model_class \<Rightarrow> error + model_class" where
  "wrapped underscore inflection_pluralize gettext class_name SITE_LABEL
      meta_base_classes app_label kwargs cls =
     (let class_name_v = class_name cls;
          verbose_name = verbose_class_name underscore class_name_v;
          plural_name = pluralize inflection_pluralize verbose_name;
          table_name = db_table_for_class underscore class_name_v
      in case db_table_for_app_and_class_call SITE_LABEL [app_label, Some table_name] of
           Inl e \<Rightarrow> Inl e
         | Inr db_table_value \<Rightarrow>
             (let meta_attrs =
                    [(''__module__'', PyStr (cls_module cls)),
                     (''verbose_name'', PyStr (gettext verbose_name)),
                     (''verbose_name_plural'', PyStr (gettext plural_name)),
                     (''db_table'', PyStr db_table_value)];
                  meta_attrs =
                    (case app_label of
                       None \<Rightarrow> meta_attrs
                     | Some l \<Rightarrow> AList.update ''app_label'' (PyStr l) meta_attrs);
                  meta_base =
                    (if meta_base_classes \<noteq> PyNone
                     then (case meta_base_classes of
                             PyList bases \<Rightarrow> bases
                           | b \<Rightarrow> [b])
                     else [PyRef ''object'']);
                  meta_attrs = dict_update meta_attrs kwargs
              in case (map_of meta_attrs ''db_table'', map_of meta_attrs ''verbose_name'',
                       map_of meta_attrs ''verbose_name_plural'') of
                   (Some t, Some v, Some p) \<Rightarrow>
                     Inr (cls\<lparr>meta_db_table := t, meta_verbose_name := v,
                              meta_verbose_name_plural := p,
                              cls_Meta := Some (meta_base, meta_attrs)\<rparr>)
                 | _ \<Rightarrow> Inl (TypeError ''Meta attribute missing'')))"

definition meta ::
  "(string \<Rightarrow> string) \<Rightarrow> (string \<Rightarrow> string) \<Rightarrow> (string \<Rightarrow> string) \<Rightarrow>
   (model_class \<Rightarrow> string) \<Rightarrow> string \<Rightarrow>
   pyval \<Rightarrow> string option \<Rightarrow> kwargs \<Rightarrow> (model_class \<Rightarrow> error + model_class)" where
  "meta underscore inflection_pluralize gettext class_name SITE_LABEL
      meta_base_classes app_label kwargs =
     wrapped underscore inflection_pluralize gettext class_name SITE_LABEL
       meta_base_classes app_label kwargs"

text \<open>
  An instance of the \<open>underscore\<close> parameter for the concrete evaluations: an underscore
  is put between a lower-case letter or digit and an upper-case letter that follows it,
  hyphens become underscores, and the result is lower-cased.
\<close>

definition upper_letters :: string where
  "upper_letters = ''ABCDEFGHIJKLMNOPQRSTUVWXYZ''"

definition lower_letters :: string where
  "lower_letters = ''abcdefghijklmnopqrstuvwxyz''"

definition to_lower :: "char \<Rightarrow> char" where
  "to_lower c = (case map_of (zip upper_letters lower_letters) c of None \<Rightarrow> c | Some l \<Rightarrow> l)"

fun split_words :: "string \<Rightarrow> string" where
  "split_words (a # b # cs) =
     (if (a \<in> set lower_letters \<or> a \<in> set ''0123456789'') \<and> b \<in> set upper_letters
      then a # CHR ''_'' # split_words (b # cs)
      else a # split_words (b # cs))"
| "split_words cs = cs"

definition underscore_words :: "string \<Rightarrow> string" where
  "underscore_words word =
     map to_lower (replace_char (CHR ''-'') (CHR ''_'') (split_words word))"


section \<open>\<open>models.py\<close>: managers\<close>

text \<open>
  Modelled from the spec: the persistence framework's single-row lookup \<open>Manager.get\<close>,
  which the two source files call and do not define. A table is the list of its rows and
  the lookup criteria are a predicate on rows; \<open>get\<close> returns the row when exactly one
  satisfies the criteria, raises \<open>DoesNotExist\<close> when none does and
  \<open>MultipleObjectsReturned\<close> when two or more do.
\<close>

definition get :: "'row list \<Rightarrow> ('row \<Rightarrow> bool) \<Rightarrow> error + 'row" where
  "get rows criteria =
     (case filter criteria rows of
        [] \<Rightarrow> Inl DoesNotExist
      | [r] \<Rightarrow> Inr r
      | r # r' # rs \<Rightarrow> Inl MultipleObjectsReturned)"

text \<open>\<open>VersionedModelManager.get_or_none\<close>: only \<open>DoesNotExist\<close> is caught.\<close>

definition get_or_none :: "'row list \<Rightarrow> ('row \<Rightarrow> bool) \<Rightarrow> error + 'row option" where
  "get_or_none rows criteria =
     (case get rows criteria of
        Inr r \<Rightarrow> Inr (Some r)
      | Inl DoesNotExist \<Rightarrow> Inr None
      | Inl e \<Rightarrow> Inl e)"

record named_model = versioned_model +
  name :: string
  alias_field :: pyval
  description :: pyval

record log_record =
  levelname :: string
  msg :: string
  log_args :: "string list"

text \<open>
  \<open>NamedModelManager.named_instance\<close>. The result is the value returned or the
  exception raised, together with the records written to the logger. The manager's model
  type is \<open>model\<close>; \<open>class_name\<close> and the constant \<open>UNKNOWN\<close> are parameters.
\<close>

definition named_instance ::
  "('m \<Rightarrow> string) \<Rightarrow> string \<Rightarrow> 'm \<Rightarrow> 'a named_model_scheme list \<Rightarrow> string \<Rightarrow>
   (error + 'a named_model_scheme) \<times> log_record list" where
  "named_instance class_name UNKNOWN model rows name_arg =
     (case get rows (\<lambda>r. name r = name_arg) of
        Inr r \<Rightarrow> (Inr r, [])
      | Inl DoesNotExist \<Rightarrow>
          (get rows (\<lambda>r. name r = UNKNOWN),
           [\<lparr>levelname = ''WARNING'',
             msg = ''Failed to retrieve instance of type (%s) named (%s)'',
             log_args = [class_name model, name_arg]\<rparr>])
      | Inl e \<Rightarrow> (Inl e, []))"

text \<open>A reference table of three rows, one of them named \<open>UNKNOWN\<close>, for the
  concrete evaluations.\<close>

definition named_row :: "int \<Rightarrow> string \<Rightarrow> named_model" where
  "named_row pk n =
     versioned_model.extend (fresh_instance\<lparr>id_field := PyInt pk\<rparr>)
       (named_model.fields n PyNone PyNone)"

definition countries :: "named_model list" where
  "countries = [named_row 1 ''France'', named_row 2 ''UNKNOWN'', named_row 3 ''Peru'']"

section \<open>\<open>fields.py\<close>: the range validators\<close>

text \<open>
  The numbers a validator can receive: an integer, a finite float or a decimal is the
  rational it denotes (Python compares these exactly with the integer bounds); floats add
  the two infinities and NaN, every comparison with which is false.
\<close>

datatype pynum = Rational rat | Infinity | NegInfinity | NotANumber

text \<open>\<open>a < value\<close> and \<open>value < b\<close> for integer literals \<open>a\<close>, \<open>b\<close>.\<close>

fun int_lt_num :: "int \<Rightarrow> pynum \<Rightarrow> bool" where
  "int_lt_num a (Rational q) = (of_int a < q)"
| "int_lt_num a Infinity = True"
| "int_lt_num a NegInfinity = False"
| "int_lt_num a NotANumber = False"

fun num_lt_int :: "pynum \<Rightarrow> int \<Rightarrow> bool" where
  "num_lt_int (Rational q) b = (q < of_int b)"
| "num_lt_int Infinity b = False"
| "num_lt_int NegInfinity b = True"
| "num_lt_int NotANumber b = False"

definition latitude_validator :: "(string \<Rightarrow> string) \<Rightarrow> pynum \<Rightarrow> error + pynum" where
  "latitude_validator gettext value =
     (let valid = (int_lt_num (- 90) value \<and> num_lt_int value 90)
      in if \<not> valid
         then Inl (ValidationError (gettext ''latitude not in range of -90 < value < 90''))
         else Inr value)"

definition longitude_validator :: "(string \<Rightarrow> string) \<Rightarrow> pynum \<Rightarrow> error + pynum" where
  "longitude_validator gettext value =
     (let valid = (int_lt_num (- 180) value \<and> num_lt_int value 180)
      in if \<not> valid
         then Inl (ValidationError (gettext ''longitude not in range of -90 < value < 90''))
         else Inr value)"


section \<open>\<open>fields.py\<close>: the field factories\<close>

text \<open>
  A field descriptor is the constructor call a factory ends with: the field class, the
  positional arguments and the keyword options. The field classes belong to the
  persistence framework and to three field packages; what a constructor does with its
  options is outside the two source files.
\<close>

record field_descriptor =
  field_class :: string
  field_args :: "pyval list"
  options :: kwargs

definition CHAR_FIELD_MAX_LENGTH :: int where
  "CHAR_FIELD_MAX_LENGTH = 1024"

definition URL_FIELD_MAX_LENGTH :: int where
  "URL_FIELD_MAX_LENGTH = 255"

definition GEO_LOCATION_MAX_DIGITS :: int where
  "GEO_LOCATION_MAX_DIGITS = 9"

definition GEO_LOCATION_DECIMAL_PLACES :: int where
  "GEO_LOCATION_DECIMAL_PLACES = 6"

definition NAME_FIELD_MAX_LENGTH :: int where
  "NAME_FIELD_MAX_LENGTH = 255"

definition USER_AGENT_FIELD_MAX_LENGTH :: int where
  "USER_AGENT_FIELD_MAX_LENGTH = 512"

definition DEFAULT_TIME_ZONE :: string where
  "DEFAULT_TIME_ZONE = ''America/New_York''"

definition im_schemes :: "string list" where
  "im_schemes = [''im'', ''xmpp'']"

definition url_schemes :: "string list" where
  "url_schemes = [''http'', ''https'', ''ftp'', ''ftps'']"

definition other_schemes :: "string list" where
  "other_schemes = [''tel'', ''mailto'', ''urn'']"

definition uri_schemes :: "string list" where
  "uri_schemes = im_schemes @ url_schemes @ other_schemes"

text \<open>
  Each factory builds the dictionary \<open>defaults = dict(...)\<close>, merges the caller's keyword
  arguments over it with \<open>defaults.update(kwargs)\<close> and passes the result to a
  constructor or to another factory. The dictionary literal of a factory is the constant
  named after it.
\<close>
definition auto_field_defaults :: kwargs where
  "auto_field_defaults =
     [(''blank'', PyBool True), (''null'', PyBool False), (''primary_key'', PyBool True), (''unique'', PyBool True)]"

definition auto_field :: "kwargs \<Rightarrow> field_descriptor" where
  "auto_field kwargs =
     (let defaults = auto_field_defaults;
          defaults = dict_update defaults kwargs
      in \<lparr>field_class = ''models.AutoField'', field_args = [], options = defaults\<rparr>)"

definition boolean_field_defaults :: kwargs where
  "boolean_field_defaults =
     [(''blank'', PyBool False), (''null'', PyBool False), (''default'', PyBool False)]"

definition boolean_field :: "kwargs \<Rightarrow> field_descriptor" where
  "boolean_field kwargs =
     (let defaults = boolean_field_defaults;
          defaults = dict_update defaults kwargs
      in \<lparr>field_class = ''models.BooleanField'', field_args = [], options = defaults\<rparr>)"

definition char_field_defaults :: kwargs where
  "char_field_defaults =
     [(''max_length'', PyInt CHAR_FIELD_MAX_LENGTH), (''blank'', PyBool False), (''null'', PyBool False), (''unique'', PyBool False)]"

definition char_field :: "kwargs \<Rightarrow> field_descriptor" where
  "char_field kwargs =
     (let defaults = char_field_defaults;
          defaults = dict_update defaults kwargs
      in \<lparr>field_class = ''models.CharField'', field_args = [], options = defaults\<rparr>)"

definition date_field_defaults :: kwargs where
  "date_field_defaults =
     [(''auto_now'', PyBool False), (''auto_now_add'', PyBool False), (''blank'', PyBool False), (''null'', PyBool False)]"

definition date_field :: "kwargs \<Rightarrow> field_descriptor" where
  "date_field kwargs =
     (let defaults = date_field_defaults;
          defaults = dict_update defaults kwargs
      in \<lparr>field_class = ''models.DateField'', field_args = [], options = defaults\<rparr>)"

definition datetime_field_defaults :: kwargs where
  "datetime_field_defaults =
     [(''auto_now'', PyBool False), (''auto_now_add'', PyBool False), (''blank'', PyBool False), (''null'', PyBool False)]"

definition datetime_field :: "kwargs \<Rightarrow> field_descriptor" where
  "datetime_field kwargs =
     (let defaults = datetime_field_defaults;
          defaults = dict_update defaults kwargs
      in \<lparr>field_class = ''models.DateTimeField'', field_args = [], options = defaults\<rparr>)"

definition floating_point_field_defaults :: kwargs where
  "floating_point_field_defaults =
     [(''blank'', PyBool False), (''null'', PyBool False), (''default'', PyFloat 0)]"

definition floating_point_field :: "kwargs \<Rightarrow> field_descriptor" where
  "floating_point_field kwargs =
     (let defaults = floating_point_field_defaults;
          defaults = dict_update defaults kwargs
      in \<lparr>field_class = ''models.FloatField'', field_args = [], options = defaults\<rparr>)"

definition integer_field_defaults :: kwargs where
  "integer_field_defaults =
     [(''default'', PyInt 0), (''blank'', PyBool False), (''null'', PyBool False)]"

definition integer_field :: "kwargs \<Rightarrow> field_descriptor" where
  "integer_field kwargs =
     (let defaults = integer_field_defaults;
          defaults = dict_update defaults kwargs
      in \<lparr>field_class = ''models.IntegerField'', field_args = [], options = defaults\<rparr>)"

definition ip_address_field_defaults :: kwargs where
  "ip_address_field_defaults =
     [(''null'', PyBool False), (''blank'', PyBool False)]"

definition ip_address_field :: "kwargs \<Rightarrow> field_descriptor" where
  "ip_address_field kwargs =
     (let defaults = ip_address_field_defaults;
          defaults = dict_update defaults kwargs
      in \<lparr>field_class = ''models.GenericIPAddressField'', field_args = [], options = defaults\<rparr>)"

definition small_integer_field_defaults :: kwargs where
  "small_integer_field_defaults =
     [(''default'', PyInt 0), (''blank'', PyBool False), (''null'', PyBool False)]"

definition small_integer_field :: "kwargs \<Rightarrow> field_descriptor" where
  "small_integer_field kwargs =
     (let defaults = small_integer_field_defaults;
          defaults = dict_update defaults kwargs
      in \<lparr>field_class = ''models.SmallIntegerField'', field_args = [], options = defaults\<rparr>)"

definition text_field_defaults :: kwargs where
  "text_field_defaults =
     [(''blank'', PyBool True), (''null'', PyBool True), (''unique'', PyBool False)]"

definition text_field :: "kwargs \<Rightarrow> field_descriptor" where
  "text_field kwargs =
     (let defaults = text_field_defaults;
          defaults = dict_update defaults kwargs
      in \<lparr>field_class = ''models.TextField'', field_args = [], options = defaults\<rparr>)"

definition url_field_defaults :: kwargs where
  "url_field_defaults =
     [(''max_length'', PyInt URL_FIELD_MAX_LENGTH), (''null'', PyBool False), (''blank'', PyBool False)]"

definition url_field :: "kwargs \<Rightarrow> field_descriptor" where
  "url_field kwargs =
     (let defaults = url_field_defaults;
          defaults = dict_update defaults kwargs
      in \<lparr>field_class = ''models.URLField'', field_args = [], options = defaults\<rparr>)"

definition uuid_field_defaults :: kwargs where
  "uuid_field_defaults =
     [(''unique'', PyBool True), (''default'', PyRef ''uuid.uuid4''), (''db_index'', PyBool True), (''editable'', PyBool False)]"

definition uuid_field :: "kwargs \<Rightarrow> field_descriptor" where
  "uuid_field kwargs =
     (let defaults = uuid_field_defaults;
          defaults = dict_update defaults kwargs
      in \<lparr>field_class = ''models.UUIDField'', field_args = [], options = defaults\<rparr>)"

definition mac_address_field_defaults :: kwargs where
  "mac_address_field_defaults =
     [(''unique'', PyBool True), (''null'', PyBool False), (''blank'', PyBool False)]"

definition mac_address_field :: "kwargs \<Rightarrow> field_descriptor" where
  "mac_address_field kwargs =
     (let defaults = mac_address_field_defaults;
          defaults = dict_update defaults kwargs
      in \<lparr>field_class = ''MACAddressField'', field_args = [], options = defaults\<rparr>)"

definition time_zone_field_defaults :: kwargs where
  "time_zone_field_defaults =
     [(''null'', PyBool False), (''blank'', PyBool False), (''default'', PyStr DEFAULT_TIME_ZONE)]"

definition time_zone_field :: "kwargs \<Rightarrow> field_descriptor" where
  "time_zone_field kwargs =
     (let defaults = time_zone_field_defaults;
          defaults = dict_update defaults kwargs
      in \<lparr>field_class = ''TimeZoneField'', field_args = [], options = defaults\<rparr>)"

definition phone_number_field_defaults :: kwargs where
  "phone_number_field_defaults =
     [(''null'', PyBool False), (''blank'', PyBool False)]"

definition phone_number_field :: "kwargs \<Rightarrow> field_descriptor" where
  "phone_number_field kwargs =
     (let defaults = phone_number_field_defaults;
          defaults = dict_update defaults kwargs
      in \<lparr>field_class = ''PhoneNumberField'', field_args = [], options = defaults\<rparr>)"

definition email_field_defaults :: kwargs where
  "email_field_defaults =
     [(''null'', PyBool False), (''blank'', PyBool False)]"

definition email_field :: "kwargs \<Rightarrow> field_descriptor" where
  "email_field kwargs =
     (let defaults = email_field_defaults;
          defaults = dict_update defaults kwargs
      in \<lparr>field_class = ''models.EmailField'', field_args = [], options = defaults\<rparr>)"

definition priority_field_defaults :: kwargs where
  "priority_field_defaults =
     [(''default'', PyInt 0)]"

definition priority_field :: "kwargs \<Rightarrow> field_descriptor" where
  "priority_field kwargs =
     (let defaults = priority_field_defaults;
          defaults = dict_update defaults kwargs
      in \<lparr>field_class = ''models.PositiveSmallIntegerField'', field_args = [], options = defaults\<rparr>)"

definition file_field :: "pyval \<Rightarrow> kwargs \<Rightarrow> field_descriptor" where
  "file_field upload_to kwargs =
     \<lparr>field_class = ''models.FileField'', field_args = [],
      options = (''upload_to'', upload_to) # kwargs\<rparr>"

definition image_field :: "kwargs \<Rightarrow> field_descriptor" where
  "image_field kwargs =
     \<lparr>field_class = ''models.ImageField'', field_args = [], options = kwargs\<rparr>"

definition decimal_field_defaults :: "pyval \<Rightarrow> pyval \<Rightarrow> kwargs" where
  "decimal_field_defaults max_digits decimal_places =
     [(''decimal_places'', decimal_places), (''max_digits'', max_digits),
      (''default'', PyInt 0), (''blank'', PyBool False), (''null'', PyBool False)]"

definition decimal_field :: "pyval \<Rightarrow> pyval \<Rightarrow> kwargs \<Rightarrow> field_descriptor" where
  "decimal_field max_digits decimal_places kwargs =
     (let defaults = decimal_field_defaults max_digits decimal_places;
          defaults = dict_update defaults kwargs
      in \<lparr>field_class = ''models.DecimalField'', field_args = [], options = defaults\<rparr>)"

text \<open>
  The call \<open>decimal_field(**d)\<close>: the parameters \<open>max_digits\<close> and \<open>decimal_places\<close>
  are bound from the dictionary, the other items are the callee's \<open>kwargs\<close>; a missing
  parameter is a \<open>TypeError\<close>.
\<close>

definition decimal_field_call :: "kwargs \<Rightarrow> error + field_descriptor" where
  "decimal_field_call d =
     (case (map_of d ''max_digits'', map_of d ''decimal_places'') of
        (Some max_digits, Some decimal_places) \<Rightarrow>
          Inr (decimal_field max_digits decimal_places
                 (AList.delete ''max_digits'' (AList.delete ''decimal_places'' d)))
      | _ \<Rightarrow> Inl (TypeError ''decimal_field() missing required positional argument''))"

definition foreign_key_field_defaults :: kwargs where
  "foreign_key_field_defaults =
     [(''blank'', PyBool False), (''db_constraint'', PyBool True), (''null'', PyBool False),
      (''on_delete'', PyRef ''models.PROTECT'')]"

definition foreign_key_field :: "pyval \<Rightarrow> kwargs \<Rightarrow> field_descriptor" where
  "foreign_key_field to kwargs =
     (let defaults = foreign_key_field_defaults;
          defaults = dict_update defaults kwargs
      in \<lparr>field_class = ''models.ForeignKey'', field_args = [to], options = defaults\<rparr>)"

definition many_to_many_field_defaults :: kwargs where
  "many_to_many_field_defaults =
     [(''db_constraint'', PyBool True), (''null'', PyBool True), (''blank'', PyBool True)]"

text \<open>\<open>inflection.camelize\<close> and \<open>class_name\<close> are parameters.\<close>

definition many_to_many_field ::
  "(string \<Rightarrow> string) \<Rightarrow> (pyval \<Rightarrow> string) \<Rightarrow> pyval \<Rightarrow> pyval \<Rightarrow> kwargs \<Rightarrow> field_descriptor" where
  "many_to_many_field camelize class_name to db_table_arg kwargs =
     (let defaults = many_to_many_field_defaults;
          (related_name, kwargs) = pop kwargs ''related_name'' PyNone;
          defaults = dict_update defaults kwargs;
          related_name =
            (if truthy related_name then related_name
             else PyStr (camelize (class_name to) @ ''_set''))
      in \<lparr>field_class = ''models.ManyToManyField'', field_args = [to],
          options = (''db_table'', db_table_arg) # (''related_name'', related_name) # defaults\<rparr>)"

definition one_to_one_field_defaults :: kwargs where
  "one_to_one_field_defaults =
     [(''blank'', PyBool False), (''db_constraint'', PyBool True), (''null'', PyBool False),
      (''on_delete'', PyRef ''models.PROTECT'')]"

definition one_to_one_field :: "pyval \<Rightarrow> kwargs \<Rightarrow> field_descriptor" where
  "one_to_one_field to kwargs =
     (let defaults = one_to_one_field_defaults;
          defaults = dict_update defaults kwargs
      in \<lparr>field_class = ''models.OneToOneField'', field_args = [to], options = defaults\<rparr>)"

definition annotation_field_defaults :: kwargs where
  "annotation_field_defaults =
     [(''blank'', PyBool False), (''null'', PyBool False), (''unique'', PyBool False)]"

definition annotation_field :: "kwargs \<Rightarrow> field_descriptor" where
  "annotation_field kwargs =
     (let defaults = annotation_field_defaults;
          defaults = dict_update defaults kwargs
      in text_field defaults)"

definition description_field_defaults :: kwargs where
  "description_field_defaults =
     [(''blank'', PyBool False), (''null'', PyBool False), (''unique'', PyBool False)]"

definition description_field :: "kwargs \<Rightarrow> field_descriptor" where
  "description_field kwargs =
     (let defaults = description_field_defaults;
          defaults = dict_update defaults kwargs
      in text_field defaults)"

definition name_field_defaults :: kwargs where
  "name_field_defaults =
     [(''max_length'', PyInt NAME_FIELD_MAX_LENGTH), (''unique'', PyBool True), (''db_index'', PyBool True), (''null'', PyBool False), (''blank'', PyBool False)]"

definition name_field :: "kwargs \<Rightarrow> field_descriptor" where
  "name_field kwargs =
     (let defaults = name_field_defaults;
          defaults = dict_update defaults kwargs
      in char_field defaults)"

definition user_agent_field_defaults :: kwargs where
  "user_agent_field_defaults =
     [(''null'', PyBool False), (''blank'', PyBool False), (''max_length'', PyInt USER_AGENT_FIELD_MAX_LENGTH)]"

definition user_agent_field :: "kwargs \<Rightarrow> field_descriptor" where
  "user_agent_field kwargs =
     (let defaults = user_agent_field_defaults;
          defaults = dict_update defaults kwargs
      in char_field defaults)"

definition instance_messaging_field_defaults :: kwargs where
  "instance_messaging_field_defaults =
     [(''null'', PyBool False), (''blank'', PyBool False), (''validators'', PyList [PyObj ''validators.URLValidator'' [(''schemes'', PyList (map PyStr im_schemes))]])]"

definition instance_messaging_field :: "kwargs \<Rightarrow> field_descriptor" where
  "instance_messaging_field kwargs =
     (let defaults = instance_messaging_field_defaults;
          defaults = dict_update defaults kwargs
      in url_field defaults)"

definition uri_field_defaults :: kwargs where
  "uri_field_defaults =
     [(''null'', PyBool False), (''blank'', PyBool False), (''validators'', PyList [PyObj ''validators.URLValidator'' [(''schemes'', PyList (map PyStr uri_schemes))]])]"

definition uri_field :: "kwargs \<Rightarrow> field_descriptor" where
  "uri_field kwargs =
     (let defaults = uri_field_defaults;
          defaults = dict_update defaults kwargs
      in url_field defaults)"

definition geo_location_field_defaults :: kwargs where
  "geo_location_field_defaults =
     [(''max_digits'', PyInt GEO_LOCATION_MAX_DIGITS),
      (''decimal_places'', PyInt GEO_LOCATION_DECIMAL_PLACES)]"

definition geo_location_field :: "kwargs \<Rightarrow> error + field_descriptor" where
  "geo_location_field kwargs =
     (let defaults = geo_location_field_defaults;
          defaults = dict_update defaults kwargs
      in decimal_field_call defaults)"

definition longitude_field_defaults :: kwargs where
  "longitude_field_defaults = [(''validators'', PyList [PyRef ''longitude_validator''])]"

definition longitude_field :: "kwargs \<Rightarrow> error + field_descriptor" where
  "longitude_field kwargs =
     (let defaults = longitude_field_defaults;
          defaults = dict_update defaults kwargs
      in geo_location_field defaults)"

definition latitude_field_defaults :: kwargs where
  "latitude_field_defaults = [(''validators'', PyList [PyRef ''latitude_validator''])]"

definition latitude_field :: "kwargs \<Rightarrow> error + field_descriptor" where
  "latitude_field kwargs =
     (let defaults = latitude_field_defaults;
          defaults = dict_update defaults kwargs
      in geo_location_field defaults)"

text \<open>
  \<open>user_field\<close> calls \<open>foreign_key_field(User, **kwargs)\<close>: the first parameter \<open>to\<close>
  is bound by position, so a keyword \<open>to\<close> among \<open>kwargs\<close> is a \<open>TypeError\<close>.
\<close>

definition user_field :: "kwargs \<Rightarrow> error + field_descriptor" where
  "user_field kwargs =
     (if map_of kwargs ''to'' \<noteq> None
      then Inl (TypeError ''foreign_key_field() got multiple values for argument to'')
      else Inr (foreign_key_field (PyRef ''User'') kwargs))"


section \<open>The catalog of factories\<close>

text \<open>
  One constructor for each factory function of \<open>fields.py\<close>, carrying the arguments the
  function's signature requires, so that a statement can range over the whole catalog.
\<close>

datatype factory =
    F_auto
  | F_boolean
  | F_file pyval
  | F_char
  | F_date
  | F_datetime
  | F_decimal pyval pyval
  | F_floating_point
  | F_foreign_key pyval
  | F_image
  | F_integer
  | F_ip_address
  | F_many_to_many pyval pyval
  | F_one_to_one pyval
  | F_small_integer
  | F_text
  | F_url
  | F_uuid
  | F_annotation
  | F_description
  | F_geo_location
  | F_longitude
  | F_latitude
  | F_mac_address
  | F_name
  | F_user
  | F_user_agent
  | F_time_zone
  | F_phone_number
  | F_email
  | F_instance_messaging
  | F_uri
  | F_priority

fun call_factory ::
  "(string \<Rightarrow> string) \<Rightarrow> (pyval \<Rightarrow> string) \<Rightarrow> factory \<Rightarrow> kwargs \<Rightarrow> error + field_descriptor" where
  "call_factory cz cn F_auto kw = Inr (auto_field kw)"
| "call_factory cz cn F_boolean kw = Inr (boolean_field kw)"
| "call_factory cz cn (F_file upload_to) kw = Inr (file_field upload_to kw)"
| "call_factory cz cn F_char kw = Inr (char_field kw)"
| "call_factory cz cn F_date kw = Inr (date_field kw)"
| "call_factory cz cn F_datetime kw = Inr (datetime_field kw)"
| "call_factory cz cn (F_decimal max_digits decimal_places) kw =
     Inr (decimal_field max_digits decimal_places kw)"
| "call_factory cz cn F_floating_point kw = Inr (floating_point_field kw)"
| "call_factory cz cn (F_foreign_key to) kw = Inr (foreign_key_field to kw)"
| "call_factory cz cn F_image kw = Inr (image_field kw)"
| "call_factory cz cn F_integer kw = Inr (integer_field kw)"
| "call_factory cz cn F_ip_address kw = Inr (ip_address_field kw)"
| "call_factory cz cn (F_many_to_many to tbl) kw = Inr (many_to_many_field cz cn to tbl kw)"
| "call_factory cz cn (F_one_to_one to) kw = Inr (one_to_one_field to kw)"
| "call_factory cz cn F_small_integer kw = Inr (small_integer_field kw)"
| "call_factory cz cn F_text kw = Inr (text_field kw)"
| "call_factory cz cn F_url kw = Inr (url_field kw)"
| "call_factory cz cn F_uuid kw = Inr (uuid_field kw)"
| "call_factory cz cn F_annotation kw = Inr (annotation_field kw)"
| "call_factory cz cn F_description kw = Inr (description_field kw)"
| "call_factory cz cn F_geo_location kw = geo_location_field kw"
| "call_factory cz cn F_longitude kw = longitude_field kw"
| "call_factory cz cn F_latitude kw = latitude_field kw"
| "call_factory cz cn F_mac_address kw = Inr (mac_address_field kw)"
| "call_factory cz cn F_name kw = Inr (name_field kw)"
| "call_factory cz cn F_user kw = user_field kw"
| "call_factory cz cn F_user_agent kw = Inr (user_agent_field kw)"
| "call_factory cz cn F_time_zone kw = Inr (time_zone_field kw)"
| "call_factory cz cn F_phone_number kw = Inr (phone_number_field kw)"
| "call_factory cz cn F_email kw = Inr (email_field kw)"
| "call_factory cz cn F_instance_messaging kw = Inr (instance_messaging_field kw)"
| "call_factory cz cn F_uri kw = Inr (uri_field kw)"
| "call_factory cz cn F_priority kw = Inr (priority_field kw)"



section \<open>The documented table of defaults\<close>

text \<open>
  The table of per-type defaults of the specification (section 4.1), row by row: the
  options a descriptor carries when the factory is called with no overrides. Every row
  is written out in full. A row that says "delegates to" a factory lists its own entries
  and, for the keys it does not name, the entries of the row it delegates to (annotation
  and description on text; name and user-agent string on char; the two URI rows on url;
  geo-coordinate on decimal with 9 digits and 6 places; latitude and longitude on
  geo-coordinate; user reference on foreign key). The required arguments of a row
  (upload destination, precision, join-table name) appear as the options they become.
  This definition follows the specification, not the source; the comparison with the
  source is the theorem on the defaults below.
\<close>

fun spec_defaults :: "(string \<Rightarrow> string) \<Rightarrow> (pyval \<Rightarrow> string) \<Rightarrow> factory \<Rightarrow> kwargs" where
  "spec_defaults cz cn F_auto =
     [(''blank'', PyBool True), (''null'', PyBool False), (''primary_key'', PyBool True),
      (''unique'', PyBool True)]"
| "spec_defaults cz cn F_boolean =
     [(''blank'', PyBool False), (''null'', PyBool False), (''default'', PyBool False)]"
| "spec_defaults cz cn (F_file upload_to) =
     [(''upload_to'', upload_to)]"
| "spec_defaults cz cn F_char =
     [(''max_length'', PyInt 1024), (''blank'', PyBool False), (''null'', PyBool False),
      (''unique'', PyBool False)]"
| "spec_defaults cz cn F_date =
     [(''auto_now'', PyBool False), (''auto_now_add'', PyBool False),
      (''blank'', PyBool False), (''null'', PyBool False)]"
| "spec_defaults cz cn F_datetime =
     [(''auto_now'', PyBool False), (''auto_now_add'', PyBool False),
      (''blank'', PyBool False), (''null'', PyBool False)]"
| "spec_defaults cz cn (F_decimal max_digits decimal_places) =
     [(''max_digits'', max_digits), (''decimal_places'', decimal_places),
      (''default'', PyInt 0), (''blank'', PyBool False), (''null'', PyBool False)]"
| "spec_defaults cz cn F_floating_point =
     [(''blank'', PyBool False), (''null'', PyBool False), (''default'', PyFloat 0)]"
| "spec_defaults cz cn (F_foreign_key to) =
     [(''blank'', PyBool False), (''db_constraint'', PyBool True), (''null'', PyBool False),
      (''on_delete'', PyRef ''models.PROTECT'')]"
| "spec_defaults cz cn F_image = []"
| "spec_defaults cz cn F_integer =
     [(''default'', PyInt 0), (''blank'', PyBool False), (''null'', PyBool False)]"
| "spec_defaults cz cn F_ip_address =
     [(''null'', PyBool False), (''blank'', PyBool False)]"
| "spec_defaults cz cn (F_many_to_many to tbl) =
     [(''db_table'', tbl), (''db_constraint'', PyBool True), (''null'', PyBool True),
      (''blank'', PyBool True), (''related_name'', PyStr (cz (cn to) @ ''_set''))]"
| "spec_defaults cz cn (F_one_to_one to) =
     [(''blank'', PyBool False), (''db_constraint'', PyBool True), (''null'', PyBool False),
      (''on_delete'', PyRef ''models.PROTECT'')]"
| "spec_defaults cz cn F_small_integer =
     [(''default'', PyInt 0), (''blank'', PyBool False), (''null'', PyBool False)]"
| "spec_defaults cz cn F_text =
     [(''blank'', PyBool True), (''null'', PyBool True), (''unique'', PyBool False)]"
| "spec_defaults cz cn F_url =
     [(''max_length'', PyInt 255), (''null'', PyBool False), (''blank'', PyBool False)]"
| "spec_defaults cz cn F_uuid =
     [(''unique'', PyBool True), (''default'', PyRef ''uuid.uuid4''),
      (''db_index'', PyBool True), (''editable'', PyBool False)]"
| "spec_defaults cz cn F_annotation =
     [(''blank'', PyBool False), (''null'', PyBool False), (''unique'', PyBool False)]"
| "spec_defaults cz cn F_description =
     [(''blank'', PyBool False), (''null'', PyBool False), (''unique'', PyBool False)]"
| "spec_defaults cz cn F_geo_location =
     [(''max_digits'', PyInt 9), (''decimal_places'', PyInt 6), (''default'', PyInt 0),
      (''blank'', PyBool False), (''null'', PyBool False)]"
| "spec_defaults cz cn F_latitude =
     [(''validators'', PyList [PyRef ''latitude_validator'']), (''max_digits'', PyInt 9),
      (''decimal_places'', PyInt 6), (''default'', PyInt 0), (''blank'', PyBool False),
      (''null'', PyBool False)]"
| "spec_defaults cz cn F_longitude =
     [(''validators'', PyList [PyRef ''longitude_validator'']), (''max_digits'', PyInt 9),
      (''decimal_places'', PyInt 6), (''default'', PyInt 0), (''blank'', PyBool False),
      (''null'', PyBool False)]"
| "spec_defaults cz cn F_mac_address =
     [(''unique'', PyBool True), (''null'', PyBool False), (''blank'', PyBool False)]"
| "spec_defaults cz cn F_name =
     [(''max_length'', PyInt 255), (''unique'', PyBool True), (''db_index'', PyBool True),
      (''null'', PyBool False), (''blank'', PyBool False)]"
| "spec_defaults cz cn F_user =
     [(''blank'', PyBool False), (''db_constraint'', PyBool True), (''null'', PyBool False),
      (''on_delete'', PyRef ''models.PROTECT'')]"
| "spec_defaults cz cn F_user_agent =
     [(''null'', PyBool False), (''blank'', PyBool False), (''max_length'', PyInt 512),
      (''unique'', PyBool False)]"
| "spec_defaults cz cn F_time_zone =
     [(''null'', PyBool False), (''blank'', PyBool False),
      (''default'', PyStr ''America/New_York'')]"
| "spec_defaults cz cn F_phone_number =
     [(''null'', PyBool False), (''blank'', PyBool False)]"
| "spec_defaults cz cn F_email =
     [(''null'', PyBool False), (''blank'', PyBool False)]"
| "spec_defaults cz cn F_instance_messaging =
     [(''null'', PyBool False), (''blank'', PyBool False),
      (''validators'', PyList [PyObj ''validators.URLValidator'' [(''schemes'', PyList [PyStr ''im'', PyStr ''xmpp''])]]),
      (''max_length'', PyInt 255)]"
| "spec_defaults cz cn F_uri =
     [(''null'', PyBool False), (''blank'', PyBool False),
      (''validators'', PyList [PyObj ''validators.URLValidator'' [(''schemes'', PyList [PyStr ''im'', PyStr ''xmpp'', PyStr ''http'', PyStr ''https'', PyStr ''ftp'', PyStr ''ftps'', PyStr ''tel'', PyStr ''mailto'', PyStr ''urn''])]]),
      (''max_length'', PyInt 255)]"
| "spec_defaults cz cn F_priority =
     [(''default'', PyInt 0)]"




text \<open>A keyword argument is supplied when the call's keyword dictionary has the key.\<close>

definition supplied :: "kwargs \<Rightarrow> string \<Rightarrow> bool" where
  "supplied kwargs key = (map_of kwargs key \<noteq> None)"

text \<open>A reference table without an \<open>UNKNOWN\<close> row.\<close>

definition planets :: "named_model list" where
  "planets = [named_row 1 ''Mars'', named_row 2 ''Venus'']"

section \<open>Facts about keyword dictionaries\<close>









section \<open>\<open>VersionedModel.save\<close>\<close>

text \<open>
  C1 (the code departs from the claim). The claim: whenever an \<open>effective_user\<close> keyword
  is supplied, \<open>save\<close> assigns it to the effective-user reference before delegating,
  whether or not \<open>update_user\<close> is supplied. The source guards the assignment with
  \<open>if update_user is not None\<close>: called with \<open>effective_user\<close> alone, \<open>save\<close> hands the
  base class an instance whose effective-user reference is untouched (only the version
  has changed), and the keyword is consumed.
\<close>

theorem save_effective_user_alone_is_dropped:
  "save is_user super_save self args [(''effective_user'', v)] =
     (case super_save (self\<lparr>version := version self + 1\<rparr>) args [] of
        (left, outcome) \<Rightarrow> (left, Inr outcome))
   \<and> save user_instance recording_save (fresh_instance\<lparr>effective_user := bob\<rparr>) []
        [(''effective_user'', alice)] =
       (fresh_instance\<lparr>effective_user := bob, version := 1\<rparr>, Inr ([], []))
   \<and> effective_user
        (fst (save user_instance recording_save (fresh_instance\<lparr>effective_user := bob\<rparr>) []
                [(''effective_user'', alice)])) = bob
   \<and> bob \<noteq> alice"
  by (simp add: save_def pop_def Let_def recording_save_def fresh_instance_def alice_def bob_def)

text \<open>
  The claim C2 as it is written fails for \<open>save(update_user=None)\<close>: the keyword is
  supplied, \<open>effective_user\<close> is not, and the effective-user reference keeps the user it
  held.
\<close>

theorem save_update_user_None_counterexample:
  "supplied [(''update_user'', PyNone)] ''update_user''
   \<and> \<not> supplied [(''update_user'', PyNone)] ''effective_user''
   \<and> effective_user
        (fst (save user_instance recording_save (fresh_instance\<lparr>effective_user := alice\<rparr>) []
                [(''update_user'', PyNone)])) = alice
   \<and> alice \<noteq> PyNone"
  by (simp add: supplied_def save_def pop_def Let_def recording_save_def fresh_instance_def
        alice_def)

text \<open>
  A value that is neither \<open>None\<close> nor a user is refused by the update-user attribute:
  \<open>save\<close> raises \<open>ValueError\<close> with the version already incremented, and the base
  class's \<open>save\<close> is not reached.
\<close>

lemma save_rejects_non_user:
  assumes "map_of kwargs ''update_user'' = Some u" and "u \<noteq> PyNone" and "\<not> is_user u"
  shows "save is_user super_save self args kwargs =
     (self\<lparr>version := version self + 1\<rparr>,
      Inl (ValueError ''Cannot assign value: update_user must be a User instance''))"
  using assms by (simp add: save_def pop_def Let_def foreign_key_assign_def)

text \<open>
  C2 (amended). When \<open>save\<close> is called with an \<open>update_user\<close> keyword whose value is a
  user instance (so not \<open>None\<close>) and with no \<open>effective_user\<close> keyword, no assignment
  raises and the base class's \<open>save\<close> receives the instance with the version
  incremented, the update-user reference set to the supplied user and the
  effective-user reference set to \<open>None\<close>, whatever it held before.
\<close>

theorem save_update_user_resets_effective_user:
  assumes "map_of kwargs ''update_user'' = Some u" and "u \<noteq> PyNone" and "is_user u"
    and "\<not> supplied kwargs ''effective_user''"
  shows "save is_user super_save self args kwargs =
     (case super_save
             (self\<lparr>version := version self + 1, update_user := u, effective_user := PyNone\<rparr>)
             args (AList.delete ''update_user'' kwargs) of
        (left, outcome) \<Rightarrow> (left, Inr outcome))"
  using assms
  by (simp add: supplied_def save_def pop_def Let_def AList.delete_conv foreign_key_assign_def)

theorem save_update_user_resets_effective_user_witness:
  "map_of [(''update_user'', bob)] ''update_user'' = Some bob \<and> bob \<noteq> PyNone
   \<and> user_instance bob
   \<and> \<not> supplied [(''update_user'', bob)] ''effective_user''
   \<and> effective_user (fresh_instance\<lparr>effective_user := alice\<rparr>) = alice
   \<and> save user_instance recording_save (fresh_instance\<lparr>effective_user := alice\<rparr>) []
        [(''update_user'', bob)] =
       (fresh_instance\<lparr>effective_user := PyNone, version := 1, update_user := bob\<rparr>,
        Inr ([], []))"
proof -
  have h1: "map_of [(''update_user'', bob)] ''update_user'' = Some bob" by simp
  have h2: "bob \<noteq> PyNone" by (simp add: bob_def)
  have h3: "user_instance bob" by (simp add: user_instance_def bob_def)
  have h4: "\<not> supplied [(''update_user'', bob)] ''effective_user''"
    by (simp add: supplied_def)
  show ?thesis
    using h1 h2 h3 h4
      save_update_user_resets_effective_user
        [where is_user = user_instance and u = bob and super_save = recording_save
           and self = "fresh_instance\<lparr>effective_user := alice\<rparr>" and args = "[]",
         OF h1 h2 h3 h4]
    by (simp add: recording_save_def fresh_instance_def)
qed

text \<open>
  C4. Every call of \<open>save\<close> leaves the version counter one higher than it found it, and
  \<open>n\<close> successive calls, with any arguments, leave it \<open>n\<close> higher than the value the
  instance started with; this holds also for a call in which an assignment raises. The
  base class's \<open>save\<close> returns the instance as it leaves it together with its outcome;
  it is assumed not to write the version column.
\<close>

theorem save_increments_version:
  assumes frame: "\<forall>s a k. version (fst (super_save s a k)) = version s"
  shows "version (fst (save is_user super_save self args kwargs)) = version self + 1
   \<and> version (fold (\<lambda>(a, k) s. fst (save is_user super_save s a k)) calls self) =
       version self + int (length calls)"
proof
  have base: "version left = version s" if "super_save s a k = (left, outcome)"
    for s a k left outcome
    using frame [rule_format, of s a k] that by simp
  have step: "version (fst (save is_user super_save s a k)) = version s + 1" for s a k
    by (auto simp: save_def pop_def Let_def foreign_key_assign_def
          split: option.splits prod.splits dest!: base)
  show "version (fst (save is_user super_save self args kwargs)) = version self + 1"
    by (rule step)
  show "version (fold (\<lambda>(a, k) s. fst (save is_user super_save s a k)) calls self) =
       version self + int (length calls)"
    by (induction calls arbitrary: self) (simp_all add: step split: prod.splits)
qed

theorem save_increments_version_witness:
  "(\<forall>s a k. version (fst (storing_save s a k)) = version s)
   \<and> version fresh_instance = 0
   \<and> version (fst (save user_instance storing_save fresh_instance []
        [(''update_user'', alice)])) = 1
   \<and> version (fold (\<lambda>(a, k) s. fst (save user_instance storing_save s a k))
        [([], []), ([], [(''update_user'', alice)]), ([], [(''effective_user'', bob)])]
        fresh_instance) = 3"
proof -
  have h: "\<forall>s a k. version (fst (storing_save s a k)) = version s"
    by (simp add: storing_save_def)
  have v0: "version fresh_instance = 0" by (simp add: fresh_instance_def)
  show ?thesis
    using h v0
      save_increments_version [OF h, of user_instance fresh_instance "[]"
        "[(''update_user'', alice)]"
        "[([], []), ([], [(''update_user'', alice)]), ([], [(''effective_user'', bob)])]"]
    by simp
qed

section \<open>Table names\<close>

text \<open>
  C3 (the code departs from the claim). The claim: \<open>db_table_for_app_and_class\<close> called
  with an application name and a table name only returns the three-part name with
  \<open>SITE_LABEL\<close> as prefix, and the two-argument call inside \<open>meta\<close> succeeds. The
  signature gives \<open>site_label\<close> no default value: every two-argument call raises
  \<open>TypeError\<close>, and so does every application of the decorator that \<open>meta\<close> returns.
  The default is reached only through three arguments, as \<open>db_table\<close> passes them.
\<close>

theorem db_table_for_app_and_class_two_arguments_raise:
  "db_table_for_app_and_class_call SITE_LABEL [app_name, table_name] =
     Inl (TypeError ''db_table_for_app_and_class() missing required positional argument'')
   \<and> meta underscore inflection_pluralize gettext class_name SITE_LABEL
        meta_base_classes app_label kwargs cls =
     Inl (TypeError ''db_table_for_app_and_class() missing required positional argument'')
   \<and> db_table_for_app_and_class_call SITE_LABEL [Some ''billing'', Some ''order_item'', None] =
     Inr (SITE_LABEL @ ''_billing_order_item'')"
  by (simp add: meta_def wrapped_def Let_def db_table_for_app_and_class_def or_site_label_def
        py_str_def)

text \<open>
  C10. Given that the inflection library turns \<open>OrderItem\<close> into \<open>order_item\<close>:
  \<open>verbose_class_name("OrderItem")\<close> is \<open>"order item"\<close>, \<open>db_table_for_class("OrderItem")\<close>
  is \<open>"order_item"\<close>, \<open>db_table("billing", "OrderItem", "acme")\<close> is
  \<open>"acme_billing_order_item"\<close>, and \<open>db_table("billing", "OrderItem")\<close> is \<open>SITE_LABEL\<close>
  followed by \<open>"_billing_order_item"\<close>.
\<close>

theorem naming_helpers_compose:
  assumes "underscore ''OrderItem'' = ''order_item''"
  shows "verbose_class_name underscore ''OrderItem'' = ''order item''
   \<and> db_table_for_class underscore ''OrderItem'' = ''order_item''
   \<and> db_table underscore SITE_LABEL (Some ''billing'') ''OrderItem'' (Some ''acme'') =
       Inr ''acme_billing_order_item''
   \<and> db_table underscore SITE_LABEL (Some ''billing'') ''OrderItem'' None =
       Inr (SITE_LABEL @ ''_billing_order_item'')"
  using assms
  by (simp add: verbose_class_name_def db_table_for_class_def db_table_def
        db_table_for_app_and_class_def or_site_label_def py_str_def replace_char_def)

theorem naming_helpers_compose_witness:
  "underscore_words ''OrderItem'' = ''order_item''
   \<and> verbose_class_name underscore_words ''OrderItem'' = ''order item''
   \<and> db_table_for_class underscore_words ''OrderItem'' = ''order_item''
   \<and> db_table underscore_words ''main'' (Some ''billing'') ''OrderItem'' (Some ''acme'') =
       Inr ''acme_billing_order_item''
   \<and> db_table underscore_words ''main'' (Some ''billing'') ''OrderItem'' None =
       Inr ''main_billing_order_item''"
proof -
  have h: "underscore_words ''OrderItem'' = ''order_item''"
    by (simp add: underscore_words_def to_lower_def upper_letters_def lower_letters_def
          replace_char_def)
  show ?thesis
    using h naming_helpers_compose [of underscore_words "''main''", OF h] by simp
qed

section \<open>Managers\<close>

lemma filter_unique:
  "distinct (map f rows) \<Longrightarrow> r \<in> set rows \<Longrightarrow> filter (\<lambda>x. f x = f r) rows = [r]"
proof (induction rows)
  case Nil
  then show ?case by simp
next
  case (Cons a rows)
  show ?case
  proof (cases "a = r")
    case True
    with Cons.prems have "\<forall>x\<in>set rows. f x \<noteq> f r" by (auto simp: image_iff)
    then have "filter (\<lambda>x. f x = f r) rows = []" by (simp add: filter_empty_conv)
    with True show ?thesis by simp
  next
    case False
    with Cons show ?thesis by auto
  qed
qed

lemma filter_none: "v \<notin> f ` set rows \<Longrightarrow> filter (\<lambda>x. f x = v) rows = []"
  by (auto simp: filter_empty_conv)

lemma countries_rows:
  "distinct (map name countries)"
  "filter (\<lambda>r. name r = ''Peru'') countries = [named_row 3 ''Peru'']"
  "filter (\<lambda>r. name r = ''Atlantis'') countries = []"
  "length (filter (\<lambda>r. version r = 0) countries) = 3"
  by (simp_all add: countries_def named_row_def fresh_instance_def versioned_model.defs
        named_model.defs)

text \<open>
  C8. On a table whose names are unique (the \<open>name\<close> column is declared unique):
  \<open>named_instance(name)\<close> returns the row with that name when there is one, and logs
  nothing; when there is none it logs one warning carrying the model type and the
  requested name, and returns the row named \<open>UNKNOWN\<close> if there is one, and fails with
  \<open>DoesNotExist\<close> if there is none.
\<close>

theorem named_instance_fallback:
  assumes "distinct (map name rows)"
  shows "(\<forall>r\<in>set rows. name r = n \<longrightarrow>
            named_instance class_name UNKNOWN model rows n = (Inr r, []))
   \<and> (n \<notin> name ` set rows \<longrightarrow>
        snd (named_instance class_name UNKNOWN model rows n) =
          [\<lparr>levelname = ''WARNING'',
            msg = ''Failed to retrieve instance of type (%s) named (%s)'',
            log_args = [class_name model, n]\<rparr>]
      \<and> (\<forall>u\<in>set rows. name u = UNKNOWN \<longrightarrow>
             fst (named_instance class_name UNKNOWN model rows n) = Inr u)
      \<and> (UNKNOWN \<notin> name ` set rows \<longrightarrow>
             fst (named_instance class_name UNKNOWN model rows n) = Inl DoesNotExist))"
proof (intro conjI ballI impI)
  fix r assume "r \<in> set rows" "name r = n"
  with assms filter_unique[of name rows r]
  show "named_instance class_name UNKNOWN model rows n = (Inr r, [])"
    by (auto simp: named_instance_def get_def)
next
  assume "n \<notin> name ` set rows"
  then have f: "filter (\<lambda>x. name x = n) rows = []" by (rule filter_none)
  show "snd (named_instance class_name UNKNOWN model rows n) =
          [\<lparr>levelname = ''WARNING'',
            msg = ''Failed to retrieve instance of type (%s) named (%s)'',
            log_args = [class_name model, n]\<rparr>]"
    by (simp add: named_instance_def get_def f)
  show "fst (named_instance class_name UNKNOWN model rows n) = Inr u"
    if "u \<in> set rows" "name u = UNKNOWN" for u
    using that assms filter_unique[of name rows u]
    by (auto simp: named_instance_def get_def f)
  show "fst (named_instance class_name UNKNOWN model rows n) = Inl DoesNotExist"
    if "UNKNOWN \<notin> name ` set rows"
  proof -
    from that have "filter (\<lambda>x. name x = UNKNOWN) rows = []" by (rule filter_none)
    then show ?thesis by (simp add: named_instance_def get_def f)
  qed
qed


theorem named_instance_fallback_witness:
  "distinct (map name countries)
   \<and> named_instance (\<lambda>m. m) ''UNKNOWN'' ''Country'' countries ''Peru'' =
       (Inr (named_row 3 ''Peru''), [])
   \<and> ''Atlantis'' \<notin> name ` set countries
   \<and> named_instance (\<lambda>m. m) ''UNKNOWN'' ''Country'' countries ''Atlantis'' =
       (Inr (named_row 2 ''UNKNOWN''),
        [\<lparr>levelname = ''WARNING'',
          msg = ''Failed to retrieve instance of type (%s) named (%s)'',
          log_args = [''Country'', ''Atlantis'']\<rparr>])
   \<and> distinct (map name planets)
   \<and> ''Atlantis'' \<notin> name ` set planets
   \<and> ''UNKNOWN'' \<notin> name ` set planets
   \<and> fst (named_instance (\<lambda>m. m) ''UNKNOWN'' ''Planet'' planets ''Atlantis'') =
       Inl DoesNotExist"
proof -
  have d1: "distinct (map name countries)" by (rule countries_rows)
  have d2: "distinct (map name planets)"
    by (simp add: planets_def named_row_def fresh_instance_def versioned_model.defs
          named_model.defs)
  have names1: "name ` set countries = {''France'', ''UNKNOWN'', ''Peru''}"
    by (simp add: countries_def named_row_def fresh_instance_def versioned_model.defs
          named_model.defs)
  have names2: "name ` set planets = {''Mars'', ''Venus''}"
    by (simp add: planets_def named_row_def fresh_instance_def versioned_model.defs
          named_model.defs)
  have peru: "named_row 3 ''Peru'' \<in> set countries" "name (named_row 3 ''Peru'') = ''Peru''"
    by (simp_all add: countries_def named_row_def versioned_model.defs named_model.defs)
  have unk: "named_row 2 ''UNKNOWN'' \<in> set countries"
    "name (named_row 2 ''UNKNOWN'') = ''UNKNOWN''"
    by (simp_all add: countries_def named_row_def versioned_model.defs named_model.defs)
  have a1: "''Atlantis'' \<notin> name ` set countries" by (simp add: names1)
  have a2: "''Atlantis'' \<notin> name ` set planets" by (simp add: names2)
  have u2: "''UNKNOWN'' \<notin> name ` set planets" by (simp add: names2)
  note c_peru = named_instance_fallback
    [OF d1, of "''Peru''" "\<lambda>m. m" "''UNKNOWN''" "''Country''"]
  note c_atl = named_instance_fallback
    [OF d1, of "''Atlantis''" "\<lambda>m. m" "''UNKNOWN''" "''Country''"]
  note p_atl = named_instance_fallback
    [OF d2, of "''Atlantis''" "\<lambda>m. m" "''UNKNOWN''" "''Planet''"]
  have r1: "named_instance (\<lambda>m. m) ''UNKNOWN'' ''Country'' countries ''Peru'' =
       (Inr (named_row 3 ''Peru''), [])"
    using c_peru peru by blast
  have r2: "snd (named_instance (\<lambda>m. m) ''UNKNOWN'' ''Country'' countries ''Atlantis'') =
        [\<lparr>levelname = ''WARNING'',
          msg = ''Failed to retrieve instance of type (%s) named (%s)'',
          log_args = [''Country'', ''Atlantis'']\<rparr>]"
    using c_atl a1 by blast
  have r3: "fst (named_instance (\<lambda>m. m) ''UNKNOWN'' ''Country'' countries ''Atlantis'') =
        Inr (named_row 2 ''UNKNOWN'')"
    using c_atl a1 unk by blast
  have r4: "fst (named_instance (\<lambda>m. m) ''UNKNOWN'' ''Planet'' planets ''Atlantis'') =
       Inl DoesNotExist"
    using p_atl a2 u2 by blast
  from r2 r3 have r23: "named_instance (\<lambda>m. m) ''UNKNOWN'' ''Country'' countries ''Atlantis'' =
       (Inr (named_row 2 ''UNKNOWN''),
        [\<lparr>levelname = ''WARNING'',
          msg = ''Failed to retrieve instance of type (%s) named (%s)'',
          log_args = [''Country'', ''Atlantis'']\<rparr>])"
    by (simp add: prod_eq_iff)
  show ?thesis
    using d1 r1 a1 r23 d2 a2 u2 r4 by blast
qed

text \<open>
  C9. \<open>get_or_none\<close> returns the row when exactly one row satisfies the criteria,
  returns \<open>None\<close> without raising when no row does, and raises
  \<open>MultipleObjectsReturned\<close> when two or more rows do.
\<close>

theorem get_or_none_suppresses_only_missing:
  "(filter criteria rows = [r] \<longrightarrow> get_or_none rows criteria = Inr (Some r))
   \<and> (filter criteria rows = [] \<longrightarrow> get_or_none rows criteria = Inr None)
   \<and> (2 \<le> length (filter criteria rows) \<longrightarrow>
        get_or_none rows criteria = Inl MultipleObjectsReturned)"
  by (auto simp: get_or_none_def get_def split: list.splits)

theorem get_or_none_suppresses_only_missing_witness:
  "filter (\<lambda>r. name r = ''Peru'') countries = [named_row 3 ''Peru'']
   \<and> get_or_none countries (\<lambda>r. name r = ''Peru'') = Inr (Some (named_row 3 ''Peru''))
   \<and> filter (\<lambda>r. name r = ''Atlantis'') countries = []
   \<and> get_or_none countries (\<lambda>r. name r = ''Atlantis'') = Inr None
   \<and> 2 \<le> length (filter (\<lambda>r. version r = 0) countries)
   \<and> get_or_none countries (\<lambda>r. version r = 0) = Inl MultipleObjectsReturned"
proof -
  have h1: "filter (\<lambda>r. name r = ''Peru'') countries = [named_row 3 ''Peru'']"
    by (rule countries_rows)
  have h2: "filter (\<lambda>r. name r = ''Atlantis'') countries = []"
    by (rule countries_rows)
  have h3: "2 \<le> length (filter (\<lambda>r. version r = 0) countries)"
    by (simp add: countries_rows)
  show ?thesis
    using h1 h2 h3
      get_or_none_suppresses_only_missing
        [of "\<lambda>r. name r = ''Peru''" countries "named_row 3 ''Peru''"]
      get_or_none_suppresses_only_missing
        [of "\<lambda>r. name r = ''Atlantis''" countries "named_row 3 ''Peru''"]
      get_or_none_suppresses_only_missing
        [of "\<lambda>r. version r = 0" countries "named_row 3 ''Peru''"]
    by blast
qed

section \<open>The range validators\<close>

text \<open>
  C7. \<open>latitude_validator\<close> returns its argument unchanged for every value strictly
  between -90 and 90 and fails with \<open>ValidationError\<close> for every value at or beyond
  either bound, the infinities included: 45 and 89.999 pass, 90 and -90 fail.
  \<open>longitude_validator\<close> does the same with the bounds -180 and 180: 0 passes, 180 and
  -180 fail.
\<close>

theorem validators_accept_open_range:
  "(- 90 < q \<and> q < 90 \<longrightarrow> latitude_validator gettext (Rational q) = Inr (Rational q))
   \<and> (q \<le> - 90 \<or> 90 \<le> q \<longrightarrow>
        latitude_validator gettext (Rational q) =
          Inl (ValidationError (gettext ''latitude not in range of -90 < value < 90'')))
   \<and> latitude_validator gettext Infinity =
        Inl (ValidationError (gettext ''latitude not in range of -90 < value < 90''))
   \<and> latitude_validator gettext NegInfinity =
        Inl (ValidationError (gettext ''latitude not in range of -90 < value < 90''))
   \<and> latitude_validator gettext (Rational 45) = Inr (Rational 45)
   \<and> latitude_validator gettext (Rational (89999 / 1000)) = Inr (Rational (89999 / 1000))
   \<and> (\<exists>m. latitude_validator gettext (Rational 90) = Inl (ValidationError m))
   \<and> (\<exists>m. latitude_validator gettext (Rational (- 90)) = Inl (ValidationError m))
   \<and> (- 180 < q \<and> q < 180 \<longrightarrow> longitude_validator gettext (Rational q) = Inr (Rational q))
   \<and> (q \<le> - 180 \<or> 180 \<le> q \<longrightarrow>
        longitude_validator gettext (Rational q) =
          Inl (ValidationError (gettext ''longitude not in range of -90 < value < 90'')))
   \<and> longitude_validator gettext Infinity =
        Inl (ValidationError (gettext ''longitude not in range of -90 < value < 90''))
   \<and> longitude_validator gettext NegInfinity =
        Inl (ValidationError (gettext ''longitude not in range of -90 < value < 90''))
   \<and> longitude_validator gettext (Rational 0) = Inr (Rational 0)
   \<and> (\<exists>m. longitude_validator gettext (Rational 180) = Inl (ValidationError m))
   \<and> (\<exists>m. longitude_validator gettext (Rational (- 180)) = Inl (ValidationError m))"
  by (auto simp: latitude_validator_def longitude_validator_def)

theorem validators_accept_open_range_witness:
  "(- 90 :: rat) < 12 \<and> (12 :: rat) < 90
   \<and> latitude_validator (\<lambda>s. s) (Rational 12) = Inr (Rational 12)
   \<and> longitude_validator (\<lambda>s. s) (Rational 12) = Inr (Rational 12)
   \<and> (180 :: rat) \<le> 200
   \<and> latitude_validator (\<lambda>s. s) (Rational 200) =
        Inl (ValidationError ''latitude not in range of -90 < value < 90'')
   \<and> longitude_validator (\<lambda>s. s) (Rational 200) =
        Inl (ValidationError ''longitude not in range of -90 < value < 90'')"
proof -
  have h1: "(- 90 :: rat) < 12 \<and> (12 :: rat) < 90" by simp
  have h2: "(- 180 :: rat) < 12 \<and> (12 :: rat) < 180" by simp
  have h3: "(200 :: rat) \<le> - 90 \<or> (90 :: rat) \<le> 200" by simp
  have h4: "(200 :: rat) \<le> - 180 \<or> (180 :: rat) \<le> 200" by simp
  show ?thesis
    using h1 h2 h3 h4
      validators_accept_open_range [of 12 "\<lambda>s. s"]
      validators_accept_open_range [of 200 "\<lambda>s. s"]
    by simp
qed


section \<open>The field factories\<close>

lemmas field_defs =
  auto_field_def boolean_field_def char_field_def date_field_def datetime_field_def
  floating_point_field_def integer_field_def ip_address_field_def small_integer_field_def
  text_field_def url_field_def uuid_field_def mac_address_field_def time_zone_field_def
  phone_number_field_def email_field_def priority_field_def file_field_def image_field_def
  decimal_field_def decimal_field_call_def foreign_key_field_def many_to_many_field_def
  one_to_one_field_def annotation_field_def description_field_def name_field_def
  user_agent_field_def instance_messaging_field_def uri_field_def geo_location_field_def
  longitude_field_def latitude_field_def user_field_def

lemmas default_defs =
  auto_field_defaults_def boolean_field_defaults_def char_field_defaults_def
  date_field_defaults_def datetime_field_defaults_def floating_point_field_defaults_def
  integer_field_defaults_def ip_address_field_defaults_def small_integer_field_defaults_def
  text_field_defaults_def url_field_defaults_def uuid_field_defaults_def
  mac_address_field_defaults_def time_zone_field_defaults_def phone_number_field_defaults_def
  email_field_defaults_def priority_field_defaults_def decimal_field_defaults_def
  foreign_key_field_defaults_def many_to_many_field_defaults_def one_to_one_field_defaults_def
  annotation_field_defaults_def description_field_defaults_def name_field_defaults_def
  user_agent_field_defaults_def instance_messaging_field_defaults_def uri_field_defaults_def
  geo_location_field_defaults_def longitude_field_defaults_def latitude_field_defaults_def

lemmas const_defs =
  CHAR_FIELD_MAX_LENGTH_def URL_FIELD_MAX_LENGTH_def GEO_LOCATION_MAX_DIGITS_def
  GEO_LOCATION_DECIMAL_PLACES_def NAME_FIELD_MAX_LENGTH_def USER_AGENT_FIELD_MAX_LENGTH_def
  DEFAULT_TIME_ZONE_def im_schemes_def url_schemes_def other_schemes_def uri_schemes_def

text \<open>
  C5. Every factory of the catalog, called with no keyword overrides, returns a
  descriptor (no factory fails), and the options of that descriptor are exactly the
  entries of the factory's row in the documented table of defaults, each key once.
\<close>

theorem factory_defaults_match_table:
  "\<exists>fd. call_factory camelize class_name f [] = Inr fd
     \<and> set (options fd) = set (spec_defaults camelize class_name f)
     \<and> distinct (map fst (options fd))"
  by (cases f)
     (simp_all add: field_defs default_defs const_defs dict_update_def pop_def insert_commute)













end
